theory Spec2Isabelle
  imports Complex_Main
begin

section \<open>Automatic Domain Randomization: the data model\<close>

text \<open>
  The embedding follows \<^verbatim>\<open>gym/adr_envs/adr.py\<close>. Python floats are modelled as real
  numbers (no rounding, no NaN). A bound of a parameter is \<open>None\<close> where the source has
  \<^verbatim>\<open>-math.inf\<close> (lower slot) or \<^verbatim>\<open>math.inf\<close> (upper slot), and \<open>Some b\<close> for a
  finite bound \<open>b\<close>.
\<close>

datatype Bound = LOWER | UPPER

datatype Direction = EXPAND | SHRINK

text \<open>Indexing a two-element list by a \<^verbatim>\<open>Bound\<close>: \<^verbatim>\<open>p_thresh[Bound.LOWER]\<close>.\<close>

fun at_bound :: "'a \<times> 'a \<Rightarrow> Bound \<Rightarrow> 'a" where
  "at_bound (l, h) LOWER = l"
| "at_bound (l, h) UPPER = h"

datatype error =
  TypeError | AttributeError | NameError | IndexError | ValueError | NotImplementedError

definition g_func :: "real \<Rightarrow> real" where
  "g_func x = exp (x - 1)"

record ADRParam =
  param_value :: real
  val_bound :: "real option \<times> real option"
  delta :: real
  pq_size :: int
  pq :: "real list"
  boundary_sample_weight :: real
  boundary_sample_flag :: bool
  param_name :: string

text \<open>\<^verbatim>\<open>ADRParam.__init__\<close>: the queue starts empty and the flag cleared.\<close>

definition ADRParam_init ::
  "real \<Rightarrow> real option \<times> real option \<Rightarrow> real \<Rightarrow> int \<Rightarrow> real \<Rightarrow> string \<Rightarrow> ADRParam" where
  "ADRParam_init v vb d n w nm =
     \<lparr>param_value = v, val_bound = vb, delta = d, pq_size = n, pq = [],
      boundary_sample_weight = w, boundary_sample_flag = False, param_name = nm\<rparr>"

text \<open>
  \<^verbatim>\<open>ADRParam.fixed_boundary\<close>: the defaults of the constructor give the bounds
  \<^verbatim>\<open>[-math.inf, math.inf]\<close> and the empty name.
\<close>

definition fixed_boundary :: "real \<Rightarrow> ADRParam" where
  "fixed_boundary v = ADRParam_init v (None, None) 0 0 0 []"

text \<open>\<^verbatim>\<open>np.mean\<close> of a list and \<^verbatim>\<open>np.clip(a, a_min, a_max)\<close>, which is
  \<^verbatim>\<open>minimum(a_max, maximum(a, a_min))\<close>.\<close>

definition np_mean :: "real list \<Rightarrow> real" where
  "np_mean xs = sum_list xs / real (length xs)"

definition np_clip :: "real \<Rightarrow> real option \<Rightarrow> real option \<Rightarrow> real" where
  "np_clip a a_min a_max =
     (let m = (case a_min of None \<Rightarrow> a | Some l \<Rightarrow> max a l)
      in case a_max of None \<Rightarrow> m | Some h \<Rightarrow> min h m)"

text \<open>
  \<^verbatim>\<open>ADRParam.update(p_val, p_thresh)\<close>: append, and when the queue holds at least
  \<^verbatim>\<open>pq_size\<close> entries, average, empty the queue, move the value and clip it.
\<close>

definition update :: "ADRParam \<Rightarrow> real \<Rightarrow> real \<times> real \<Rightarrow> ADRParam" where
  "update self p_val p_thresh =
     (let q = pq self @ [p_val] in
      if int (length q) \<ge> pq_size self then
        (let pq_avg = np_mean q;
             v = (if pq_avg < at_bound p_thresh LOWER then param_value self - delta self
                  else if pq_avg > at_bound p_thresh UPPER then param_value self + delta self
                  else param_value self)
         in self\<lparr>pq := [],
                 param_value :=
                   np_clip v (at_bound (val_bound self) LOWER) (at_bound (val_bound self) UPPER)\<rparr>)
      else self\<lparr>pq := q\<rparr>)"

text \<open>A sequence of \<^verbatim>\<open>update\<close> calls on one parameter, each with its own performance
  value and thresholds.\<close>

fun update_calls :: "ADRParam \<Rightarrow> (real \<times> (real \<times> real)) list \<Rightarrow> ADRParam" where
  "update_calls p [] = p"
| "update_calls p ((x, th) # cs) = update_calls (update p x th) cs"

text \<open>The value lies within the bounds of the parameter.\<close>

definition in_bounds :: "ADRParam \<Rightarrow> bool" where
  "in_bounds p =
     ((case at_bound (val_bound p) LOWER of None \<Rightarrow> True | Some l \<Rightarrow> l \<le> param_value p) \<and>
      (case at_bound (val_bound p) UPPER of None \<Rightarrow> True | Some h \<Rightarrow> param_value p \<le> h))"

section \<open>The store and the random source\<close>

text \<open>
  Parameter objects are shared by reference between a distribution and the engine's
  flattened list, so they live in a store, addressed by numbers. The random generator is
  a sequence of raw outcomes and a position: \<^verbatim>\<open>np.random.uniform\<close> reads the next
  outcome as the unit variate \<open>u\<close> of \<^verbatim>\<open>low + (high - low) * u\<close>, and
  \<^verbatim>\<open>np.random.normal\<close> reads it as the standard normal variate \<open>z\<close> of
  \<^verbatim>\<open>loc + scale * z\<close>. The scale is a \<^verbatim>\<open>g_func\<close> value or an absolute value at every
  call of the source, so the check of numpy for a negative scale never fires.
\<close>

type_synonym addr = nat

record world =
  heap :: "addr \<Rightarrow> ADRParam"
  draws :: "nat \<Rightarrow> real"
  pos :: nat

definition np_random_uniform :: "real \<Rightarrow> real \<Rightarrow> real \<Rightarrow> real" where
  "np_random_uniform low high u = low + (high - low) * u"

definition np_random_normal :: "real \<Rightarrow> real \<Rightarrow> real \<Rightarrow> real" where
  "np_random_normal loc scale z = loc + scale * z"

section \<open>Distributions\<close>

text \<open>
  The attributes of the base class \<^verbatim>\<open>ADRDist\<close>. \<open>None\<close> in \<open>parameters\<close> is the
  \<^verbatim>\<open>None\<close> that \<^verbatim>\<open>ADRDist.__init__\<close> assigns. A compound distribution holds its children
  by value: two distributions of the model never share a child object.
\<close>

record ADRDist_attrs =
  last_sample :: "real option"
  parameters :: "addr list option"
  name :: string

definition ADRDist_init :: ADRDist_attrs where
  "ADRDist_init = \<lparr>last_sample = None, parameters = None, name = []\<rparr>"

text \<open>
  The five classes. The last field of \<open>ADRAdditiveGaussian\<close> is the attribute
  \<^verbatim>\<open>alpha\<close>, \<open>None\<close> while no statement has assigned it.
\<close>

datatype ADRDist =
    ADRUniform ADRDist_attrs addr addr
  | ADRAdditiveGaussian ADRDist_attrs real ADRDist ADRDist "real option"
  | ADRUnbiasedAdditiveGaussian ADRDist_attrs real ADRDist real
  | ADRMultiplicative ADRDist_attrs real ADRDist ADRDist real
  | ADRActionNoise ADRDist_attrs real ADRDist ADRDist ADRDist

fun attrs :: "ADRDist \<Rightarrow> ADRDist_attrs" where
  "attrs (ADRUniform b l r) = b"
| "attrs (ADRAdditiveGaussian b x li lj al) = b"
| "attrs (ADRUnbiasedAdditiveGaussian b x li al) = b"
| "attrs (ADRMultiplicative b x li lj al) = b"
| "attrs (ADRActionNoise b a li lj lk) = b"

fun set_attrs :: "ADRDist_attrs \<Rightarrow> ADRDist \<Rightarrow> ADRDist" where
  "set_attrs c (ADRUniform b l r) = ADRUniform c l r"
| "set_attrs c (ADRAdditiveGaussian b x li lj al) = ADRAdditiveGaussian c x li lj al"
| "set_attrs c (ADRUnbiasedAdditiveGaussian b x li al) = ADRUnbiasedAdditiveGaussian c x li al"
| "set_attrs c (ADRMultiplicative b x li lj al) = ADRMultiplicative c x li lj al"
| "set_attrs c (ADRActionNoise b a li lj lk) = ADRActionNoise c a li lj lk"

definition get_parameters :: "ADRDist \<Rightarrow> addr list option" where
  "get_parameters d = parameters (attrs d)"

definition get_last_sample :: "ADRDist \<Rightarrow> real option" where
  "get_last_sample d = last_sample (attrs d)"

subsection \<open>Constructors\<close>

text \<open>\<^verbatim>\<open>ADRUniform.update_boundary_names\<close> and \<^verbatim>\<open>ADRUniform.__init__\<close>.\<close>

definition uniform_boundary_names ::
  "string \<Rightarrow> addr \<Rightarrow> addr \<Rightarrow> (addr \<Rightarrow> ADRParam) \<Rightarrow> (addr \<Rightarrow> ADRParam)" where
  "uniform_boundary_names nm phi_l phi_h h =
     (let h1 = h(phi_l := (h phi_l)\<lparr>param_name := nm @ ''_l''\<rparr>)
      in h1(phi_h := (h1 phi_h)\<lparr>param_name := nm @ ''_r''\<rparr>))"

definition ADRUniform_init ::
  "addr \<Rightarrow> addr \<Rightarrow> string \<Rightarrow> (addr \<Rightarrow> ADRParam) \<Rightarrow> ADRDist \<times> (addr \<Rightarrow> ADRParam)" where
  "ADRUniform_init phi_l phi_h nm h =
     (ADRUniform (ADRDist_init\<lparr>parameters := Some [phi_l, phi_h], name := nm\<rparr>) phi_l phi_h,
      uniform_boundary_names nm phi_l phi_h h)"

text \<open>
  The operands of \<^verbatim>\<open>+\<close> in the constructors of the compound distributions:
  \<^verbatim>\<open>lam.get_parameters()\<close> is a list or \<^verbatim>\<open>None\<close>, and \<^verbatim>\<open>lam.get_parameters\<close>, written
  without the call, is the bound method itself. Python adds two lists and raises
  \<^verbatim>\<open>TypeError\<close> for every other pair of these operands.
\<close>

datatype pyobj = PyNone | PyList "addr list" | PyBoundMethod

fun py_add :: "pyobj \<Rightarrow> pyobj \<Rightarrow> error + addr list" where
  "py_add (PyList xs) (PyList ys) = Inr (xs @ ys)"
| "py_add a b = Inl TypeError"

fun called :: "addr list option \<Rightarrow> pyobj" where
  "called None = PyNone"
| "called (Some ps) = PyList ps"

text \<open>Reading \<^verbatim>\<open>self.alpha\<close>: \<^verbatim>\<open>AttributeError\<close> where the object has no such attribute.\<close>

fun get_alpha :: "ADRDist \<Rightarrow> error + real" where
  "get_alpha (ADRAdditiveGaussian b x li lj None) = Inl AttributeError"
| "get_alpha (ADRAdditiveGaussian b x li lj (Some al)) = Inr al"
| "get_alpha (ADRUnbiasedAdditiveGaussian b x li al) = Inr al"
| "get_alpha (ADRMultiplicative b x li lj al) = Inr al"
| "get_alpha d = Inl AttributeError"

text \<open>
  \<^verbatim>\<open>ADRAdditiveGaussian.__init__\<close> assigns \<^verbatim>\<open>x_0\<close>, \<^verbatim>\<open>lam_i\<close> and \<^verbatim>\<open>lam_j\<close>, then
  evaluates the bare expression \<^verbatim>\<open>self.alpha\<close>, then builds the parameter list from
  \<^verbatim>\<open>lam_i.get_parameters() + lam_j.get_parameters\<close>. The argument \<^verbatim>\<open>alpha\<close> is never
  stored. (The source wraps that sum in a one-element list; the statement is never
  reached with a value, and the wrapping is not represented.)
\<close>

definition ADRAdditiveGaussian_init ::
  "real \<Rightarrow> ADRDist \<Rightarrow> ADRDist \<Rightarrow> real \<Rightarrow> error + ADRDist" where
  "ADRAdditiveGaussian_init x_0 lam_i lam_j alpha =
     (let self = ADRAdditiveGaussian ADRDist_init x_0 lam_i lam_j None in
      case get_alpha self of
        Inl e \<Rightarrow> Inl e
      | Inr al \<Rightarrow>
          (case py_add (called (get_parameters lam_i)) PyBoundMethod of
             Inl e \<Rightarrow> Inl e
           | Inr ps \<Rightarrow> Inr (set_attrs (ADRDist_init\<lparr>parameters := Some ps\<rparr>) self)))"

definition ADRUnbiasedAdditiveGaussian_init :: "real \<Rightarrow> ADRDist \<Rightarrow> real \<Rightarrow> error + ADRDist" where
  "ADRUnbiasedAdditiveGaussian_init x_0 lam_i alpha =
     Inr (ADRUnbiasedAdditiveGaussian (ADRDist_init\<lparr>parameters := get_parameters lam_i\<rparr>)
            x_0 lam_i alpha)"

definition ADRMultiplicative_init ::
  "real \<Rightarrow> ADRDist \<Rightarrow> ADRDist \<Rightarrow> real \<Rightarrow> error + ADRDist" where
  "ADRMultiplicative_init x_0 lam_i lam_j alpha =
     (case py_add (called (get_parameters lam_i)) PyBoundMethod of
        Inl e \<Rightarrow> Inl e
      | Inr ps \<Rightarrow>
          Inr (ADRMultiplicative (ADRDist_init\<lparr>parameters := Some ps\<rparr>) x_0 lam_i lam_j alpha))"

definition ADRActionNoise_init ::
  "real \<Rightarrow> ADRDist \<Rightarrow> ADRDist \<Rightarrow> ADRDist \<Rightarrow> error + ADRDist" where
  "ADRActionNoise_init a_0 lam_i lam_j lam_k =
     (case py_add (called (get_parameters lam_i)) PyBoundMethod of
        Inl e \<Rightarrow> Inl e
      | Inr ps \<Rightarrow>
          (case py_add (PyList ps) PyBoundMethod of
             Inl e \<Rightarrow> Inl e
           | Inr qs \<Rightarrow>
               Inr (ADRActionNoise (ADRDist_init\<lparr>parameters := Some qs\<rparr>)
                      a_0 lam_i lam_j lam_k)))"

subsection \<open>Sampling\<close>

text \<open>
  The loop of \<^verbatim>\<open>ADRUniform.episode_sample\<close> over \<^verbatim>\<open>self.parameters\<close>: a parameter
  whose boundary flag is set has the flag cleared and its value stored as the last sample.
\<close>

fun pin_loop ::
  "addr list \<Rightarrow> real option \<Rightarrow> (addr \<Rightarrow> ADRParam) \<Rightarrow> real option \<times> (addr \<Rightarrow> ADRParam)" where
  "pin_loop [] ls h = (ls, h)"
| "pin_loop (a # as) ls h =
     (if boundary_sample_flag (h a)
      then pin_loop as (Some (param_value (h a))) (h(a := (h a)\<lparr>boundary_sample_flag := False\<rparr>))
      else pin_loop as ls h)"

text \<open>
  \<^verbatim>\<open>ADRActionNoise.step_sample\<close>, given the bound method \<^verbatim>\<open>self.lam_k.episode_sample\<close>
  as \<open>k_sample\<close>. The body is three statements. The first assigns
  \<^verbatim>\<open>a_0 * np.random.normal(1, g_func(np.abs(lam_i.get_last_sample())))\<close> to
  \<^verbatim>\<open>self.last_sample\<close>, where \<^verbatim>\<open>a_0\<close> is a bare name, looked up among the globals
  \<open>glob\<close>. The second and the third begin with a unary \<^verbatim>\<open>+\<close>: each draws its normal
  variate (the third after sampling \<^verbatim>\<open>lam_k\<close>) and discards the result. \<^verbatim>\<open>np.abs\<close> of
  \<^verbatim>\<open>None\<close> raises \<^verbatim>\<open>TypeError\<close>.
\<close>

definition step_body ::
  "(string \<rightharpoonup> real) \<Rightarrow> ADRDist_attrs \<Rightarrow> real \<Rightarrow> ADRDist \<Rightarrow> ADRDist \<Rightarrow> ADRDist \<Rightarrow>
   (world \<Rightarrow> (error + real) \<times> ADRDist \<times> world) \<Rightarrow> world \<Rightarrow> (error + real) \<times> ADRDist \<times> world" where
  "step_body glob b a li lj lk k_sample w =
     (case glob ''a_0'' of
        None \<Rightarrow> (Inl NameError, ADRActionNoise b a li lj lk, w)
      | Some a_0 \<Rightarrow>
          (case get_last_sample li of
             None \<Rightarrow> (Inl TypeError, ADRActionNoise b a li lj lk, w)
           | Some si \<Rightarrow>
               (let x = a_0 * np_random_normal 1 (g_func \<bar>si\<bar>) (draws w (pos w));
                    b1 = b\<lparr>last_sample := Some x\<rparr>;
                    w1 = w\<lparr>pos := Suc (pos w)\<rparr>
                in case get_last_sample lj of
                     None \<Rightarrow> (Inl TypeError, ADRActionNoise b1 a li lj lk, w1)
                   | Some sj \<Rightarrow>
                       (let n1 = np_random_normal 0 (g_func \<bar>sj\<bar>) (draws w1 (pos w1));
                            w2 = w1\<lparr>pos := Suc (pos w1)\<rparr>
                        in case k_sample w2 of
                             (Inl e, lk', w3) \<Rightarrow> (Inl e, ADRActionNoise b1 a li lj lk', w3)
                           | (Inr sk, lk', w3) \<Rightarrow>
                               (let n2 = np_random_normal 0 (g_func \<bar>sk\<bar>) (draws w3 (pos w3))
                                in (Inr x, ADRActionNoise b1 a li lj lk',
                                    w3\<lparr>pos := Suc (pos w3)\<rparr>))))))"

text \<open>
  \<^verbatim>\<open>episode_sample\<close> of the five classes. An exception leaves the objects as they were
  mutated up to the raise. In \<^verbatim>\<open>ADRAdditiveGaussian.episode_sample\<close> the first
  \<^verbatim>\<open>self.alpha\<close> is read before any child is sampled.
\<close>

fun episode_sample ::
  "(string \<rightharpoonup> real) \<Rightarrow> ADRDist \<Rightarrow> world \<Rightarrow> (error + real) \<times> ADRDist \<times> world" where
  "episode_sample glob (ADRUniform b phi_l phi_h) = (\<lambda>w.
     case parameters b of
       None \<Rightarrow> (Inl TypeError, ADRUniform b phi_l phi_h, w)
     | Some ps \<Rightarrow>
         (case pin_loop ps (last_sample b) (heap w) of
            (ls, h) \<Rightarrow>
              (let x = np_random_uniform (param_value (h phi_l)) (param_value (h phi_h))
                         (draws w (pos w))
               in (Inr x, ADRUniform (b\<lparr>last_sample := Some x\<rparr>) phi_l phi_h,
                   w\<lparr>heap := h, pos := Suc (pos w)\<rparr>))))"
| "episode_sample glob (ADRAdditiveGaussian b x_0 li lj alpha) = (\<lambda>w.
     case get_alpha (ADRAdditiveGaussian b x_0 li lj alpha) of
       Inl e \<Rightarrow> (Inl e, ADRAdditiveGaussian b x_0 li lj alpha, w)
     | Inr al \<Rightarrow>
         (case episode_sample glob li w of
            (Inl e, li', w1) \<Rightarrow> (Inl e, ADRAdditiveGaussian b x_0 li' lj alpha, w1)
          | (Inr si, li', w1) \<Rightarrow>
              (case episode_sample glob lj w1 of
                 (Inl e, lj', w2) \<Rightarrow> (Inl e, ADRAdditiveGaussian b x_0 li' lj' alpha, w2)
               | (Inr sj, lj', w2) \<Rightarrow>
                   (let x = x_0 + \<bar>np_random_normal (g_func (al * si)) (g_func \<bar>al * sj\<bar>)
                                     (draws w2 (pos w2))\<bar>
                    in (Inr x, ADRAdditiveGaussian (b\<lparr>last_sample := Some x\<rparr>) x_0 li' lj' alpha,
                        w2\<lparr>pos := Suc (pos w2)\<rparr>)))))"
| "episode_sample glob (ADRUnbiasedAdditiveGaussian b x_0 li alpha) = (\<lambda>w.
     case episode_sample glob li w of
       (Inl e, li', w1) \<Rightarrow> (Inl e, ADRUnbiasedAdditiveGaussian b x_0 li' alpha, w1)
     | (Inr si, li', w1) \<Rightarrow>
         (let x = x_0 + np_random_normal 0 (g_func \<bar>alpha * si\<bar>) (draws w1 (pos w1))
          in (Inr x, ADRUnbiasedAdditiveGaussian (b\<lparr>last_sample := Some x\<rparr>) x_0 li' alpha,
              w1\<lparr>pos := Suc (pos w1)\<rparr>)))"
| "episode_sample glob (ADRMultiplicative b x_0 li lj alpha) = (\<lambda>w.
     case episode_sample glob li w of
       (Inl e, li', w1) \<Rightarrow> (Inl e, ADRMultiplicative b x_0 li' lj alpha, w1)
     | (Inr si, li', w1) \<Rightarrow>
         (case episode_sample glob lj w1 of
            (Inl e, lj', w2) \<Rightarrow> (Inl e, ADRMultiplicative b x_0 li' lj' alpha, w2)
          | (Inr sj, lj', w2) \<Rightarrow>
              (let x = x_0 * exp (np_random_normal (alpha * si) \<bar>alpha * sj\<bar> (draws w2 (pos w2)))
               in (Inr x, ADRMultiplicative (b\<lparr>last_sample := Some x\<rparr>) x_0 li' lj' alpha,
                   w2\<lparr>pos := Suc (pos w2)\<rparr>))))"
| "episode_sample glob (ADRActionNoise b a_0 li lj lk) = (\<lambda>w.
     case episode_sample glob li w of
       (Inl e, li', w1) \<Rightarrow> (Inl e, ADRActionNoise b a_0 li' lj lk, w1)
     | (Inr si, li', w1) \<Rightarrow>
         (case episode_sample glob lj w1 of
            (Inl e, lj', w2) \<Rightarrow> (Inl e, ADRActionNoise b a_0 li' lj' lk, w2)
          | (Inr sj, lj', w2) \<Rightarrow>
              step_body glob b a_0 li' lj' lk (episode_sample glob lk) w2))"

text \<open>\<^verbatim>\<open>step_sample\<close>: only \<^verbatim>\<open>ADRActionNoise\<close> overrides the method of the base class.\<close>

fun step_sample ::
  "(string \<rightharpoonup> real) \<Rightarrow> ADRDist \<Rightarrow> world \<Rightarrow> (error + real) \<times> ADRDist \<times> world" where
  "step_sample glob (ADRActionNoise b a_0 li lj lk) w =
     step_body glob b a_0 li lj lk (episode_sample glob lk) w"
| "step_sample glob d w = (Inl NotImplementedError, d, w)"

text \<open>
  The names the module binds at top level are its imports, the two enumerations,
  \<^verbatim>\<open>g_func\<close> and the classes: none of them is a number, and none is \<^verbatim>\<open>a_0\<close>.
\<close>

definition module_globals :: "string \<rightharpoonup> real" where
  "module_globals = Map.empty"

section \<open>The engine\<close>

text \<open>
  \<^verbatim>\<open>distribution_dict\<close> maps a name to a distribution object; the objects are those of
  \<^verbatim>\<open>distributions\<close>, so the model stores the position of the object in that list.
  \<^verbatim>\<open>sample_idx\<close> is \<open>None\<close> until a boundary sample assigns it.
\<close>

record ADR =
  distribution_dict :: "string \<rightharpoonup> nat"
  p_thresh :: "real \<times> real"
  adr_parameters :: "addr list"
  sample_idx :: "int option"
  distributions :: "ADRDist list"
  do_boundary_sample :: bool

text \<open>Decimal digits of a number, for \<^verbatim>\<open>"dist_{}".format(ph_val)\<close>.\<close>

fun str_nat :: "nat \<Rightarrow> string" where
  "str_nat n =
     (if n < 10 then [''0123456789'' ! n]
      else str_nat (n div 10) @ [''0123456789'' ! (n mod 10)])"

declare str_nat.simps [simp del]

text \<open>
  \<^verbatim>\<open>dist.update_boundary_names()\<close>: only \<^verbatim>\<open>ADRUniform\<close> defines the method, every
  other class raises \<^verbatim>\<open>AttributeError\<close>.
\<close>

fun update_boundary_names :: "ADRDist \<Rightarrow> (addr \<Rightarrow> ADRParam) \<Rightarrow> error + (addr \<Rightarrow> ADRParam)" where
  "update_boundary_names (ADRUniform b phi_l phi_h) h =
     Inr (uniform_boundary_names (name b) phi_l phi_h h)"
| "update_boundary_names d h = Inl AttributeError"

text \<open>
  The loop of \<^verbatim>\<open>ADR.construct_dict\<close>. \<open>ph_val\<close> is the local variable of the source: it is
  passed on unchanged, since no statement of the loop assigns it. \<open>i\<close> is the position of
  the current distribution. The result carries the distributions and the store as the
  loop left them.
\<close>

fun construct_dict_loop ::
  "nat \<Rightarrow> ADRDist list \<Rightarrow> nat \<Rightarrow> (string \<rightharpoonup> nat) \<Rightarrow> (addr \<Rightarrow> ADRParam) \<Rightarrow>
   (error + (string \<rightharpoonup> nat)) \<times> ADRDist list \<times> (addr \<Rightarrow> ADRParam)" where
  "construct_dict_loop ph_val [] i dict h = (Inr dict, [], h)"
| "construct_dict_loop ph_val (d # rest) i dict h =
     (case dict (name (attrs d)) of
        Some j \<Rightarrow>
          (let d' = set_attrs ((attrs d)\<lparr>name := ''dist_'' @ str_nat ph_val\<rparr>) d in
           case update_boundary_names d' h of
             Inl e \<Rightarrow> (Inl e, d' # rest, h)
           | Inr h' \<Rightarrow>
               (case construct_dict_loop ph_val rest (Suc i)
                       (dict(name (attrs d') \<mapsto> i)) h' of
                  (r, rest', h'') \<Rightarrow> (r, d' # rest', h'')))
      | None \<Rightarrow>
          (case construct_dict_loop ph_val rest (Suc i)
                  (dict(name (attrs d) \<mapsto> i)) h of
             (r, rest', h'') \<Rightarrow> (r, d # rest', h'')))"

definition construct_dict ::
  "ADRDist list \<Rightarrow> (addr \<Rightarrow> ADRParam) \<Rightarrow>
   (error + (string \<rightharpoonup> nat)) \<times> ADRDist list \<times> (addr \<Rightarrow> ADRParam)" where
  "construct_dict dists h = (let ph_val = 0 in construct_dict_loop ph_val dists 0 Map.empty h)"

text \<open>The loop \<^verbatim>\<open>self.parameters += dist.get_parameters()\<close> of \<^verbatim>\<open>ADR.__init__\<close>;
  extending a list by \<^verbatim>\<open>None\<close> raises \<^verbatim>\<open>TypeError\<close>.\<close>

fun collect_parameters :: "addr list \<Rightarrow> ADRDist list \<Rightarrow> error + addr list" where
  "collect_parameters acc [] = Inr acc"
| "collect_parameters acc (d # rest) =
     (case get_parameters d of
        None \<Rightarrow> Inl TypeError
      | Some ps \<Rightarrow> collect_parameters (acc @ ps) rest)"

definition ADR_init ::
  "ADRDist list \<Rightarrow> real \<times> real \<Rightarrow> (addr \<Rightarrow> ADRParam) \<Rightarrow> (error + ADR) \<times> (addr \<Rightarrow> ADRParam)" where
  "ADR_init dists thresh h =
     (case construct_dict dists h of
        (Inl e, dists', h') \<Rightarrow> (Inl e, h')
      | (Inr dict, dists', h') \<Rightarrow>
          (case collect_parameters [] dists' of
             Inl e \<Rightarrow> (Inl e, h')
           | Inr ps \<Rightarrow>
               (Inr \<lparr>distribution_dict = dict, p_thresh = thresh, adr_parameters = ps,
                     sample_idx = None, distributions = dists', do_boundary_sample = True\<rparr>,
                h')))"

text \<open>\<^verbatim>\<open>ADR.episode_sample\<close>: every distribution in order, stopping at the first raise.\<close>

fun episode_loop ::
  "(string \<rightharpoonup> real) \<Rightarrow> ADRDist list \<Rightarrow> world \<Rightarrow> (error + real list) \<times> ADRDist list \<times> world" where
  "episode_loop glob [] w = (Inr [], [], w)"
| "episode_loop glob (d # rest) w =
     (case episode_sample glob d w of
        (Inl e, d', w1) \<Rightarrow> (Inl e, d' # rest, w1)
      | (Inr x, d', w1) \<Rightarrow>
          (case episode_loop glob rest w1 of
             (Inl e, rest', w2) \<Rightarrow> (Inl e, d' # rest', w2)
           | (Inr lam, rest', w2) \<Rightarrow> (Inr (x # lam), d' # rest', w2)))"

definition ADR_episode_sample ::
  "(string \<rightharpoonup> real) \<Rightarrow> ADR \<Rightarrow> world \<Rightarrow> (error + real list) \<times> ADR \<times> world" where
  "ADR_episode_sample glob self w =
     (case episode_loop glob (distributions self) w of
        (r, dists', w') \<Rightarrow> (r, self\<lparr>distributions := dists'\<rparr>, w'))"

text \<open>
  Indexing a Python list: \<^verbatim>\<open>None\<close> is no index (\<^verbatim>\<open>TypeError\<close>), a negative index counts
  from the end, and an index outside the list raises \<^verbatim>\<open>IndexError\<close>.
\<close>

fun py_index :: "'a list \<Rightarrow> int option \<Rightarrow> error + 'a" where
  "py_index xs None = Inl TypeError"
| "py_index xs (Some i) =
     (if 0 \<le> i \<and> i < int (length xs) then Inr (xs ! nat i)
      else if i < 0 \<and> - int (length xs) \<le> i then Inr (xs ! nat (int (length xs) + i))
      else Inl IndexError)"

text \<open>
  \<^verbatim>\<open>np.random.choice(a, p=p)\<close> for a number \<open>a\<close>: numpy rejects an empty population, a
  probability vector of another length, a negative probability and probabilities that do
  not sum to one; it then builds the cumulative sums, divides them by the last one, and
  returns the position at which the unit variate \<open>u\<close> is inserted to the right of equal
  entries (\<^verbatim>\<open>cdf.searchsorted(u, side='right')\<close>), which on a nondecreasing array is the
  number of leading entries that are at most \<open>u\<close>.
\<close>

fun cumsum :: "real \<Rightarrow> real list \<Rightarrow> real list" where
  "cumsum acc [] = []"
| "cumsum acc (x # xs) = (acc + x) # cumsum (acc + x) xs"

definition searchsorted_right :: "real list \<Rightarrow> real \<Rightarrow> nat" where
  "searchsorted_right cdf u = length (takeWhile (\<lambda>c. c \<le> u) cdf)"

definition np_random_choice :: "nat \<Rightarrow> real list \<Rightarrow> real \<Rightarrow> error + nat" where
  "np_random_choice a p u =
     (if a = 0 then Inl ValueError
      else if length p \<noteq> a then Inl ValueError
      else if list_ex (\<lambda>x. x < 0) p then Inl ValueError
      else if sum_list p \<noteq> 1 then Inl ValueError
      else (let cdf = cumsum 0 p
            in Inr (searchsorted_right (map (\<lambda>c. c / last cdf) cdf) u)))"

text \<open>
  \<^verbatim>\<open>ADR.boundary_sample\<close>. Where the weights sum to zero the division of the source
  yields NaN or infinite entries, which \<^verbatim>\<open>np.random.choice\<close> rejects with
  \<^verbatim>\<open>ValueError\<close>. The second component of the result is \<^verbatim>\<open>self.sample_idx\<close>.
\<close>

definition boundary_sample ::
  "(string \<rightharpoonup> real) \<Rightarrow> ADR \<Rightarrow> world \<Rightarrow> (error + real list \<times> int option) \<times> ADR \<times> world" where
  "boundary_sample glob self w =
     (if do_boundary_sample self then
        (let sample_weights = map (\<lambda>a. boundary_sample_weight (heap w a)) (adr_parameters self);
             total = sum_list sample_weights
         in if total = 0 then (Inl ValueError, self, w)
            else
              (case np_random_choice (length (adr_parameters self))
                      (map (\<lambda>x. x / total) sample_weights) (draws w (pos w)) of
                 Inl e \<Rightarrow> (Inl e, self, w)
               | Inr i \<Rightarrow>
                   (let self1 = self\<lparr>sample_idx := Some (int i)\<rparr>;
                        w1 = w\<lparr>pos := Suc (pos w)\<rparr>
                    in case py_index (adr_parameters self1) (sample_idx self1) of
                         Inl e \<Rightarrow> (Inl e, self1, w1)
                       | Inr a \<Rightarrow>
                           (let w2 = w1\<lparr>heap := (heap w1)
                                        (a := (heap w1 a)\<lparr>boundary_sample_flag := True\<rparr>)\<rparr>
                            in case ADR_episode_sample glob self1 w2 of
                                 (Inl e, self2, w3) \<Rightarrow> (Inl e, self2, w3)
                               | (Inr lam, self2, w3) \<Rightarrow>
                                   (Inr (lam, sample_idx self2), self2, w3)))))
      else
        (let self1 = self\<lparr>sample_idx := Some 0\<rparr>
         in case ADR_episode_sample glob self1 w of
              (Inl e, self2, w3) \<Rightarrow> (Inl e, self2, w3)
            | (Inr lam, self2, w3) \<Rightarrow> (Inr (lam, sample_idx self2), self2, w3)))"

text \<open>
  \<^verbatim>\<open>ADR.update(performance, param_idx)\<close>: the index defaults to \<^verbatim>\<open>self.sample_idx\<close>; the
  list lookup comes before the call of \<^verbatim>\<open>ADRParam.update\<close>, so a failed lookup leaves the
  store as it was.
\<close>

definition ADR_update ::
  "ADR \<Rightarrow> real \<Rightarrow> int option \<Rightarrow> (addr \<Rightarrow> ADRParam) \<Rightarrow> (error + unit) \<times> (addr \<Rightarrow> ADRParam)" where
  "ADR_update self performance param_idx h =
     (let idx = (case param_idx of None \<Rightarrow> sample_idx self | Some i \<Rightarrow> Some i) in
      case py_index (adr_parameters self) idx of
        Inl e \<Rightarrow> (Inl e, h)
      | Inr a \<Rightarrow> (Inr (), h(a := update (h a) performance (p_thresh self))))"

section \<open>Properties of a parameter\<close>

lemma np_clip_unbounded: "np_clip a None None = a"
  by (simp add: np_clip_def)

lemma update_val_bound: "val_bound (update p x th) = val_bound p"
  by (simp add: update_def Let_def)

lemma update_delta: "delta (update p x th) = delta p"
  by (simp add: update_def Let_def)

lemma update_pq_size: "pq_size (update p x th) = pq_size p"
  by (simp add: update_def Let_def)

lemma update_in_bounds: "in_bounds p \<Longrightarrow> in_bounds (update p x th)"
  by (cases "val_bound p")
     (auto simp: in_bounds_def update_def Let_def np_clip_def split: option.splits)

lemma update_calls_in_bounds: "in_bounds p \<Longrightarrow> in_bounds (update_calls p cs)"
  by (induction p cs rule: update_calls.induct) (auto simp: update_in_bounds)

lemma update_calls_val_bound: "val_bound (update_calls p cs) = val_bound p"
  by (induction p cs rule: update_calls.induct) (auto simp: update_val_bound)

lemma update_appends:
  "int (length (pq p)) + 1 < pq_size p \<Longrightarrow> update p x th = p\<lparr>pq := pq p @ [x]\<rparr>"
  by (simp add: update_def Let_def)

lemma update_decides:
  "pq_size p \<le> int (length (pq p)) + 1 \<Longrightarrow>
   update p x th =
     p\<lparr>pq := [],
       param_value :=
         np_clip (if np_mean (pq p @ [x]) < fst th then param_value p - delta p
                  else if snd th < np_mean (pq p @ [x]) then param_value p + delta p
                  else param_value p)
           (fst (val_bound p)) (snd (val_bound p))\<rparr>"
  by (cases th; cases "val_bound p") (simp add: update_def Let_def)

lemma update_frozen_value:
  "delta p = 0 \<Longrightarrow> val_bound p = (None, None) \<Longrightarrow> param_value (update p x th) = param_value p"
  by (simp add: update_def Let_def np_clip_unbounded)

lemma update_calls_frozen_value:
  "delta p = 0 \<Longrightarrow> val_bound p = (None, None) \<Longrightarrow>
   param_value (update_calls p cs) = param_value p"
  by (induction p cs rule: update_calls.induct)
     (simp_all add: update_frozen_value update_delta update_val_bound)

lemma update_calls_pq_empty:
  "pq_size p \<le> 0 \<Longrightarrow> pq p = [] \<Longrightarrow> pq (update_calls p cs) = []"
  by (induction p cs rule: update_calls.induct) (simp_all add: update_def Let_def)


text \<open>
  C1. For a parameter with \<open>pq_size \<ge> 1\<close>, a call of \<open>update\<close> that leaves the queue
  shorter than \<open>pq_size\<close> only appends the performance value. A call that brings the queue
  to \<open>pq_size\<close> entries empties the queue, takes the mean of the queued values, subtracts
  \<open>delta\<close> where the mean is below the lower threshold, adds \<open>delta\<close> where it is above
  the upper threshold, leaves the value alone otherwise, and clips the result into the
  bounds. With \<open>pq_size = 3\<close>, thresholds \<open>(0, 10)\<close> and \<open>delta = 0.02\<close>, three
  performance values of 20 raise the value by 0.02 (clipped) and leave the queue empty,
  and two of them leave the value as it was.
\<close>

theorem update_queue_decision:
  assumes "1 \<le> pq_size p"
  shows
   "(int (length (pq p)) + 1 < pq_size p \<longrightarrow> update p x th = p\<lparr>pq := pq p @ [x]\<rparr>) \<and>
    (pq_size p \<le> int (length (pq p)) + 1 \<longrightarrow>
       update p x th =
         p\<lparr>pq := [],
           param_value :=
             np_clip (if np_mean (pq p @ [x]) < fst th then param_value p - delta p
                      else if snd th < np_mean (pq p @ [x]) then param_value p + delta p
                      else param_value p)
               (fst (val_bound p)) (snd (val_bound p))\<rparr>) \<and>
    (pq p = [] \<and> pq_size p = 3 \<and> delta p = 0.02 \<longrightarrow>
       param_value (update_calls p [(20, (0, 10)), (20, (0, 10)), (20, (0, 10))]) =
         np_clip (param_value p + 0.02) (fst (val_bound p)) (snd (val_bound p)) \<and>
       pq (update_calls p [(20, (0, 10)), (20, (0, 10)), (20, (0, 10))]) = [] \<and>
       param_value (update_calls p [(20, (0, 10)), (20, (0, 10))]) = param_value p \<and>
       pq (update_calls p [(20, (0, 10)), (20, (0, 10))]) = [20, 20])"
proof (intro conjI impI)
  assume "int (length (pq p)) + 1 < pq_size p"
  then show "update p x th = p\<lparr>pq := pq p @ [x]\<rparr>" by (rule update_appends)
next
  assume "pq_size p \<le> int (length (pq p)) + 1"
  then show "update p x th =
         p\<lparr>pq := [],
           param_value :=
             np_clip (if np_mean (pq p @ [x]) < fst th then param_value p - delta p
                      else if snd th < np_mean (pq p @ [x]) then param_value p + delta p
                      else param_value p)
               (fst (val_bound p)) (snd (val_bound p))\<rparr>"
    by (rule update_decides)
next
  assume h: "pq p = [] \<and> pq_size p = 3 \<and> delta p = 0.02"
  obtain lo hi where vb: "val_bound p = (lo, hi)" by (cases "val_bound p")
  from h have q: "pq p = []" and n: "pq_size p = 3" and d: "delta p = 0.02"
    by simp_all
  have two: "update_calls p [(20, (0, 10)), (20, (0, 10))] = p\<lparr>pq := [20, 20]\<rparr>"
    by (simp add: update_def Let_def q n)
  show "param_value (update_calls p [(20, (0, 10)), (20, (0, 10))]) = param_value p"
    by (simp only: two) simp
  show "pq (update_calls p [(20, (0, 10)), (20, (0, 10))]) = [20, 20]"
    by (simp only: two) simp
  have three: "update_calls p [(20, (0, 10)), (20, (0, 10)), (20, (0, 10))] =
      p\<lparr>pq := [], param_value := np_clip (param_value p + 0.02) lo hi\<rparr>"
    by (simp add: update_def Let_def np_mean_def q n d vb)
  show "param_value (update_calls p [(20, (0, 10)), (20, (0, 10)), (20, (0, 10))]) =
         np_clip (param_value p + 0.02) (fst (val_bound p)) (snd (val_bound p))"
    by (simp only: three) (simp add: vb)
  show "pq (update_calls p [(20, (0, 10)), (20, (0, 10)), (20, (0, 10))]) = []"
    by (simp only: three) simp
qed

theorem update_queue_decision_witness:
  "1 \<le> pq_size (ADRParam_init 1 (Some 0, Some 1.01) 0.02 3 1 []) \<and>
   update (ADRParam_init 1 (Some 0, Some 1.01) 0.02 3 1 []) 20 (0, 10) =
     (ADRParam_init 1 (Some 0, Some 1.01) 0.02 3 1 [])\<lparr>pq := [20]\<rparr> \<and>
   update ((ADRParam_init 1 (Some 0, Some 1.01) 0.02 3 1 [])\<lparr>pq := [20, 20]\<rparr>) 20 (0, 10) =
     (ADRParam_init 1 (Some 0, Some 1.01) 0.02 3 1 [])\<lparr>param_value := 1.01\<rparr> \<and>
   param_value (update_calls (ADRParam_init 1 (Some 0, Some 1.01) 0.02 3 1 [])
      [(20, (0, 10)), (20, (0, 10)), (20, (0, 10))]) = 1.01 \<and>
   param_value (update_calls (ADRParam_init 1 (None, None) 0.02 3 1 [])
      [(20, (0, 10)), (20, (0, 10)), (20, (0, 10))]) = 1.02 \<and>
   param_value (update_calls (ADRParam_init 1 (None, None) 0.02 3 1 [])
      [(20, (0, 10)), (20, (0, 10))]) = 1"
  using update_queue_decision [of "ADRParam_init 1 (Some 0, Some 1.01) 0.02 3 1 []" 20 "(0, 10)"]
    update_queue_decision [of "(ADRParam_init 1 (Some 0, Some 1.01) 0.02 3 1 [])\<lparr>pq := [20, 20]\<rparr>" 20 "(0, 10)"]
    update_queue_decision [of "ADRParam_init 1 (None, None) 0.02 3 1 []" 20 "(0, 10)"]
  by (simp add: ADRParam_init_def np_clip_def np_mean_def del: update_calls.simps)



text \<open>
  C2. A parameter whose value lies within its bounds keeps it there through every
  sequence of \<open>update\<close> calls, and the bounds themselves never change. A single call
  either only appends to the queue and leaves the value alone, or ends with the value
  clipped into the bounds.
\<close>

theorem update_keeps_value_in_bounds:
  assumes "in_bounds p"
  shows "in_bounds (update_calls p cs) \<and> val_bound (update_calls p cs) = val_bound p \<and>
         ((pq (update p x th) = pq p @ [x] \<and> param_value (update p x th) = param_value p) \<or>
          (\<exists>v. param_value (update p x th) =
                 np_clip v (at_bound (val_bound p) LOWER) (at_bound (val_bound p) UPPER)))"
proof -
  have "in_bounds (update_calls p cs)"
    using assms by (rule update_calls_in_bounds)
  moreover have "val_bound (update_calls p cs) = val_bound p"
    by (rule update_calls_val_bound)
  moreover have "(pq (update p x th) = pq p @ [x] \<and> param_value (update p x th) = param_value p) \<or>
          (\<exists>v. param_value (update p x th) =
                 np_clip v (at_bound (val_bound p) LOWER) (at_bound (val_bound p) UPPER))"
    by (cases "pq_size p \<le> int (length (pq p @ [x]))") (auto simp: update_def Let_def)
  ultimately show ?thesis by blast
qed

theorem update_keeps_value_in_bounds_witness:
  "in_bounds (ADRParam_init 1 (Some 0, Some 1.03) 0.02 1 1 []) \<and>
   in_bounds (update_calls (ADRParam_init 1 (Some 0, Some 1.03) 0.02 1 1 [])
                [(20, (0, 10)), (20, (0, 10)), (20, (0, 10))]) \<and>
   param_value (update_calls (ADRParam_init 1 (Some 0, Some 1.03) 0.02 1 1 [])
                [(20, (0, 10)), (20, (0, 10)), (20, (0, 10))]) = 1.03"
proof -
  let ?p = "ADRParam_init 1 (Some 0, Some 1.03) 0.02 1 1 []"
  have h: "in_bounds ?p" by (simp add: in_bounds_def ADRParam_init_def)
  have v: "param_value (update_calls ?p [(20, (0, 10)), (20, (0, 10)), (20, (0, 10))]) = 1.03"
    by (simp add: ADRParam_init_def update_def np_mean_def np_clip_def Let_def)
  from update_keeps_value_in_bounds [OF h, of "[(20, (0, 10)), (20, (0, 10)), (20, (0, 10))]"]
  have "in_bounds (update_calls ?p [(20, (0, 10)), (20, (0, 10)), (20, (0, 10))])"
    by blast
  with h v show ?thesis by blast
qed

text \<open>
  C4, as stated, says that with \<open>pq_size = 0\<close> a call of \<open>update\<close> only appends to the
  queue and takes no threshold decision. It fails: the test \<open>len(pq) \<ge> pq_size\<close> holds
  after every append. At a parameter with \<open>pq_size = 0\<close>, value 1 and \<open>delta = 0.02\<close>,
  the call with performance 20 and thresholds \<open>(0, 10)\<close> leaves the queue empty and the
  value at 1.02.
\<close>

theorem update_zero_capacity_counterexample:
  "pq_size (ADRParam_init 1 (None, None) 0.02 0 1 []) = 0 \<and>
   update (ADRParam_init 1 (None, None) 0.02 0 1 []) 20 (0, 10) \<noteq>
     (ADRParam_init 1 (None, None) 0.02 0 1 [])\<lparr>pq := [20]\<rparr> \<and>
   pq (update (ADRParam_init 1 (None, None) 0.02 0 1 []) 20 (0, 10)) = [] \<and>
   param_value (update (ADRParam_init 1 (None, None) 0.02 0 1 []) 20 (0, 10)) = 1.02"
  by (simp add: ADRParam_init_def update_def np_mean_def np_clip_def Let_def)

text \<open>
  C4, amended. A parameter with \<open>pq_size = 0\<close> and an empty queue takes the threshold
  decision at every call of \<open>update\<close>: the mean is the performance value itself, the value
  moves down by \<open>delta\<close> below the lower threshold, up by \<open>delta\<close> above the upper one,
  stays otherwise, and is clipped; the queue is empty after every sequence of calls.
\<close>

theorem update_zero_capacity:
  assumes "pq_size p = 0" and "pq p = []"
  shows "update p x th =
           p\<lparr>param_value :=
               np_clip (if x < fst th then param_value p - delta p
                        else if snd th < x then param_value p + delta p
                        else param_value p)
                 (fst (val_bound p)) (snd (val_bound p))\<rparr> \<and>
         pq (update_calls p cs) = []"
proof
  show "update p x th =
           p\<lparr>param_value :=
               np_clip (if x < fst th then param_value p - delta p
                        else if snd th < x then param_value p + delta p
                        else param_value p)
                 (fst (val_bound p)) (snd (val_bound p))\<rparr>"
    using assms by (cases th; cases "val_bound p") (simp add: update_def Let_def np_mean_def)
  show "pq (update_calls p cs) = []"
    using assms by (simp add: update_calls_pq_empty)
qed

theorem update_zero_capacity_witness:
  "pq_size (ADRParam_init 1 (None, None) 0.02 0 1 []) = 0 \<and>
   pq (ADRParam_init 1 (None, None) 0.02 0 1 []) = [] \<and>
   update (ADRParam_init 1 (None, None) 0.02 0 1 []) 20 (0, 10) =
     (ADRParam_init 1 (None, None) 0.02 0 1 [])\<lparr>param_value := 1.02\<rparr> \<and>
   pq (update_calls (ADRParam_init 1 (None, None) 0.02 0 1 []) [(20, (0, 10)), (5, (0, 10))]) = []"
  using update_zero_capacity [of "ADRParam_init 1 (None, None) 0.02 0 1 []" 20 "(0, 10)"
      "[(20, (0, 10)), (5, (0, 10))]"]
  by (simp add: ADRParam_init_def np_clip_def del: update_calls.simps)

text \<open>
  C5. The value of a parameter made by \<open>fixed_boundary\<close> is the same after any sequence
  of \<open>update\<close> calls, whatever the performance values and thresholds.
\<close>

theorem fixed_boundary_value_unchanged:
  "param_value (update_calls (fixed_boundary v) cs) = v"
proof -
  have "param_value (update_calls (fixed_boundary v) cs) = param_value (fixed_boundary v)"
    by (rule update_calls_frozen_value) (simp_all add: fixed_boundary_def ADRParam_init_def)
  then show ?thesis by (simp add: fixed_boundary_def ADRParam_init_def)
qed

section \<open>Properties of the uniform distribution\<close>

lemma pin_loop_value: "param_value (snd (pin_loop as ls h) a) = param_value (h a)"
  by (induction as arbitrary: ls h) simp_all

lemma pin_loop_flag_mono:
  "\<not> boundary_sample_flag (h a) \<Longrightarrow> \<not> boundary_sample_flag (snd (pin_loop as ls h) a)"
  by (induction as arbitrary: ls h) simp_all

lemma pin_loop_flag_cleared:
  "a \<in> set as \<Longrightarrow> \<not> boundary_sample_flag (snd (pin_loop as ls h) a)"
proof (induction as arbitrary: ls h)
  case Nil
  then show ?case by simp
next
  case (Cons b as)
  show ?case
  proof (cases "a = b")
    case True
    then show ?thesis by (simp add: pin_loop_flag_mono)
  next
    case False
    with Cons.prems have "a \<in> set as" by simp
    then show ?thesis by (simp add: Cons.IH)
  qed
qed

lemma np_random_uniform_range:
  assumes "lo \<le> hi" "0 \<le> u" "u \<le> 1"
  shows "lo \<le> np_random_uniform lo hi u \<and> np_random_uniform lo hi u \<le> hi"
proof -
  have a: "0 \<le> (hi - lo) * u" using assms by simp
  have "(hi - lo) * u \<le> (hi - lo) * 1"
    using assms by (intro mult_left_mono) simp_all
  then show ?thesis using a by (simp add: np_random_uniform_def)
qed

lemma ADRUniform_init_parameters:
  "\<exists>b. fst (ADRUniform_init phi_l phi_h nm h) = ADRUniform b phi_l phi_h \<and>
       parameters b = Some [phi_l, phi_h] \<and> last_sample b = None \<and> name b = nm"
  by (simp add: ADRUniform_init_def ADRDist_init_def)

lemma pin_loop_pair:
  "fst (pin_loop [phi_l, phi_h] ls h) =
     (if boundary_sample_flag (h phi_h) then Some (param_value (h phi_h))
      else if boundary_sample_flag (h phi_l) then Some (param_value (h phi_l))
      else ls)"
  by simp

text \<open>
  C3. For a uniform distribution over two parameters with \<open>phi_l \<le> phi_h\<close> in value, and
  a unit variate in \<open>[0, 1]\<close>, \<open>episode_sample\<close> returns a value between the two parameter
  values as they are at the call; the value returned is the fresh uniform draw and is what
  \<open>last_sample\<close> holds afterwards, whether or not a boundary flag was set; the flags of
  both parameters are clear afterwards, and the parameter values are untouched. The last
  conjunct is the value that the loop over the parameters had stored before the draw
  replaced it: the value of a flagged parameter.
\<close>

theorem uniform_episode_sample:
  assumes "parameters b = Some [phi_l, phi_h]"
    and "param_value (heap w phi_l) \<le> param_value (heap w phi_h)"
    and "0 \<le> draws w (pos w)" and "draws w (pos w) \<le> 1"
    and "episode_sample glob (ADRUniform b phi_l phi_h) w = (r, d', w')"
  shows "\<exists>x. r = Inr x \<and>
           param_value (heap w phi_l) \<le> x \<and> x \<le> param_value (heap w phi_h) \<and>
           x = np_random_uniform (param_value (heap w phi_l)) (param_value (heap w phi_h))
                 (draws w (pos w)) \<and>
           get_last_sample d' = Some x \<and>
           \<not> boundary_sample_flag (heap w' phi_l) \<and> \<not> boundary_sample_flag (heap w' phi_h) \<and>
           param_value (heap w' phi_l) = param_value (heap w phi_l) \<and>
           param_value (heap w' phi_h) = param_value (heap w phi_h) \<and>
           fst (pin_loop [phi_l, phi_h] (last_sample b) (heap w)) =
             (if boundary_sample_flag (heap w phi_h) then Some (param_value (heap w phi_h))
              else if boundary_sample_flag (heap w phi_l) then Some (param_value (heap w phi_l))
              else last_sample b)"
proof -
  obtain ls h where pl: "pin_loop [phi_l, phi_h] (last_sample b) (heap w) = (ls, h)"
    by (cases "pin_loop [phi_l, phi_h] (last_sample b) (heap w)")
  have h: "h = snd (pin_loop [phi_l, phi_h] (last_sample b) (heap w))"
    by (simp only: pl snd_conv)
  have vl: "param_value (h phi_l) = param_value (heap w phi_l)"
    and vh: "param_value (h phi_h) = param_value (heap w phi_h)"
    unfolding h by (rule pin_loop_value)+
  have fl: "\<not> boundary_sample_flag (h phi_l)" and fh: "\<not> boundary_sample_flag (h phi_h)"
    unfolding h by (rule pin_loop_flag_cleared, simp)+
  let ?x = "np_random_uniform (param_value (heap w phi_l)) (param_value (heap w phi_h))
                 (draws w (pos w))"
  have res: "episode_sample glob (ADRUniform b phi_l phi_h) w =
      (Inr ?x, ADRUniform (b\<lparr>last_sample := Some ?x\<rparr>) phi_l phi_h,
       w\<lparr>heap := h, pos := Suc (pos w)\<rparr>)"
    using assms(1) pl vl vh by (simp add: Let_def del: pin_loop.simps)
  from res assms(5) have r: "r = Inr ?x"
    and d': "d' = ADRUniform (b\<lparr>last_sample := Some ?x\<rparr>) phi_l phi_h"
    and w': "w' = w\<lparr>heap := h, pos := Suc (pos w)\<rparr>"
    by simp_all
  from np_random_uniform_range [OF assms(2) assms(3) assms(4)]
  show ?thesis
    by (simp add: r d' w' get_last_sample_def vl vh fl fh pin_loop_pair del: pin_loop.simps)
qed


theorem uniform_episode_sample_witness:
  "\<exists>x. fst (episode_sample Map.empty
            (ADRUniform \<lparr>last_sample = None, parameters = Some [2, 5], name = ''joint''\<rparr> 2 5)
            \<lparr>heap = (\<lambda>a. (ADRParam_init (real a) (None, None) 0.02 3 1 [])
                                \<lparr>boundary_sample_flag := True\<rparr>),
             draws = (\<lambda>k. 1 / 3), pos = 0\<rparr>) = Inr x \<and> 2 \<le> x \<and> x \<le> 5 \<and> x = 3 \<and>
       fst (pin_loop [2, 5] None
             (\<lambda>a. (ADRParam_init (real a) (None, None) 0.02 3 1 [])
                                \<lparr>boundary_sample_flag := True\<rparr>)) = Some 5"
proof -
  let ?b = "\<lparr>last_sample = None, parameters = Some [2, 5], name = ''joint''\<rparr>"
  let ?w = "\<lparr>heap = (\<lambda>a. (ADRParam_init (real a) (None, None) 0.02 3 1 [])
                                \<lparr>boundary_sample_flag := True\<rparr>),
             draws = (\<lambda>k. 1 / 3), pos = 0\<rparr>"
  let ?e = "episode_sample Map.empty (ADRUniform ?b 2 5) ?w"
  have p: "parameters ?b = Some [2, 5]" by simp
  have v: "param_value (heap ?w 2) \<le> param_value (heap ?w 5)"
    by (simp add: ADRParam_init_def)
  have u0: "0 \<le> draws ?w (pos ?w)" and u1: "draws ?w (pos ?w) \<le> 1" by simp_all
  have e: "?e = (fst ?e, fst (snd ?e), snd (snd ?e))" by (simp only: prod.collapse)
  from uniform_episode_sample [OF p v u0 u1 e]
  obtain x where x: "fst ?e = Inr x" "param_value (heap ?w 2) \<le> x"
      "x \<le> param_value (heap ?w 5)"
      "x = np_random_uniform (param_value (heap ?w 2)) (param_value (heap ?w 5))
             (draws ?w (pos ?w))"
      "fst (pin_loop [2, 5] (last_sample ?b) (heap ?w)) =
         (if boundary_sample_flag (heap ?w 5) then Some (param_value (heap ?w 5))
          else if boundary_sample_flag (heap ?w 2) then Some (param_value (heap ?w 2))
          else last_sample ?b)"
    by blast
  from x(2-4) have "2 \<le> x \<and> x \<le> 5 \<and> x = 3"
    by (simp add: ADRParam_init_def np_random_uniform_def)
  moreover from x(5) have "fst (pin_loop [2, 5] None
             (\<lambda>a. (ADRParam_init (real a) (None, None) 0.02 3 1 [])
                                \<lparr>boundary_sample_flag := True\<rparr>)) = Some 5"
    by (simp add: ADRParam_init_def del: pin_loop.simps)
  ultimately show ?thesis using x(1) by blast
qed

section \<open>Properties of the compound distributions\<close>

text \<open>
  C7, on the code. The constructor of \<open>ADRAdditiveGaussian\<close> raises \<open>AttributeError\<close> at
  its read of the attribute \<open>alpha\<close>, and the constructors of \<open>ADRMultiplicative\<close> and
  \<open>ADRActionNoise\<close> raise \<open>TypeError\<close> at the sum of a list and a bound method, for all
  arguments. \<open>ADRUnbiasedAdditiveGaussian\<close> is constructed, with the parameter list of its
  child.
\<close>

theorem compound_constructors_raise:
  "ADRAdditiveGaussian_init x_0 lam_i lam_j alpha = Inl AttributeError \<and>
   ADRMultiplicative_init x_0 lam_i lam_j alpha = Inl TypeError \<and>
   ADRActionNoise_init a_0 lam_i lam_j lam_k = Inl TypeError \<and>
   (\<exists>d. ADRUnbiasedAdditiveGaussian_init x_0 lam_i alpha = Inr d \<and>
        get_parameters d = get_parameters lam_i)"
  by (simp add: ADRAdditiveGaussian_init_def ADRMultiplicative_init_def ADRActionNoise_init_def
      ADRUnbiasedAdditiveGaussian_init_def get_parameters_def)

text \<open>
  C8, on the code. With the globals of the module, \<open>step_sample\<close> of every
  \<open>ADRActionNoise\<close> object raises \<open>NameError\<close> at the name \<open>a_0\<close> and changes nothing;
  \<open>episode_sample\<close> raises it after sampling the first two children. Were \<open>a_0\<close> bound
  to 2 as a global, the sample would be the first term alone: with last samples 1, a
  third child that samples 1 and normal variates 1 it is 4, where the three-term sum is 6.
\<close>

theorem action_noise_step_sample_raises:
  "step_sample module_globals (ADRActionNoise b a_0 li lj lk) w =
     (Inl NameError, ADRActionNoise b a_0 li lj lk, w) \<and>
   fst (episode_sample module_globals
      (ADRActionNoise \<lparr>last_sample = None, parameters = Some [0, 1, 2, 3, 4, 5], name = []\<rparr> 2
         (ADRUniform \<lparr>last_sample = None, parameters = Some [0, 1], name = ''i''\<rparr> 0 1)
         (ADRUniform \<lparr>last_sample = None, parameters = Some [2, 3], name = ''j''\<rparr> 2 3)
         (ADRUniform \<lparr>last_sample = None, parameters = Some [4, 5], name = ''k''\<rparr> 4 5))
      \<lparr>heap = (\<lambda>a. fixed_boundary 1), draws = (\<lambda>k. 1), pos = 0\<rparr>) = Inl NameError \<and>
   fst (step_sample [''a_0'' \<mapsto> 2]
      (ADRActionNoise \<lparr>last_sample = None, parameters = Some [0, 1, 2, 3, 4, 5], name = []\<rparr> 2
         (ADRUniform \<lparr>last_sample = Some 1, parameters = Some [0, 1], name = ''i''\<rparr> 0 1)
         (ADRUniform \<lparr>last_sample = Some 1, parameters = Some [2, 3], name = ''j''\<rparr> 2 3)
         (ADRUniform \<lparr>last_sample = None, parameters = Some [4, 5], name = ''k''\<rparr> 4 5))
      \<lparr>heap = (\<lambda>a. fixed_boundary 1), draws = (\<lambda>k. 1), pos = 0\<rparr>) = Inr 4"
  by (simp add: step_body_def module_globals_def get_last_sample_def Let_def
      np_random_normal_def np_random_uniform_def g_func_def fixed_boundary_def ADRParam_init_def)

section \<open>Properties of the engine\<close>

lemma str_nat_0: "str_nat 0 = ''0''"
  by (simp add: str_nat.simps [of 0])

text \<open>
  C6, on the code. Three uniform distributions named \<open>joint\<close>: the second and the third
  are both renamed \<open>dist_0\<close>, and the registry has two keys, the second of which maps to
  the third distribution. Two compound distributions, whose names are both empty: the
  renamed one has no method to rename its boundaries, and the construction of the registry
  raises \<open>AttributeError\<close>.
\<close>

theorem construct_dict_overwrites:
  "construct_dict
     [ADRUniform \<lparr>last_sample = None, parameters = Some [0, 1], name = ''joint''\<rparr> 0 1,
      ADRUniform \<lparr>last_sample = None, parameters = Some [2, 3], name = ''joint''\<rparr> 2 3,
      ADRUniform \<lparr>last_sample = None, parameters = Some [4, 5], name = ''joint''\<rparr> 4 5] h =
   (Inr [''joint'' \<mapsto> 0, ''dist_0'' \<mapsto> 2],
    [ADRUniform \<lparr>last_sample = None, parameters = Some [0, 1], name = ''joint''\<rparr> 0 1,
     ADRUniform \<lparr>last_sample = None, parameters = Some [2, 3], name = ''dist_0''\<rparr> 2 3,
     ADRUniform \<lparr>last_sample = None, parameters = Some [4, 5], name = ''dist_0''\<rparr> 4 5],
    uniform_boundary_names ''dist_0'' 4 5 (uniform_boundary_names ''dist_0'' 2 3 h)) \<and>
   fst (construct_dict
     [ADRUnbiasedAdditiveGaussian \<lparr>last_sample = None, parameters = Some [0, 1], name = []\<rparr> 0
        (ADRUniform \<lparr>last_sample = None, parameters = Some [0, 1], name = ''a''\<rparr> 0 1) 0.01,
      ADRUnbiasedAdditiveGaussian \<lparr>last_sample = None, parameters = Some [2, 3], name = []\<rparr> 0
        (ADRUniform \<lparr>last_sample = None, parameters = Some [2, 3], name = ''b''\<rparr> 2 3) 0.01]
     h) = Inl AttributeError"
  by (simp add: construct_dict_def str_nat_0 numeral_2_eq_2)

lemma ADR_episode_sample_idx:
  "sample_idx (fst (snd (ADR_episode_sample glob e w))) = sample_idx e"
  by (simp add: ADR_episode_sample_def split: prod.splits)

lemma cumsum_Nil_iff: "cumsum acc p = [] \<longleftrightarrow> p = []"
  by (cases p) simp_all

lemma cumsum_last: "p \<noteq> [] \<Longrightarrow> last (cumsum acc p) = acc + sum_list p"
proof (induction p arbitrary: acc)
  case Nil
  then show ?case by simp
next
  case (Cons x xs)
  show ?case
  proof (cases "xs = []")
    case True
    then show ?thesis by simp
  next
    case False
    with Cons.IH [of "acc + x"] show ?thesis
      by (simp add: cumsum_Nil_iff add.assoc)
  qed
qed

lemma searchsorted_cumsum:
  "acc \<le> u \<Longrightarrow> u < acc + sum_list p \<Longrightarrow>
   searchsorted_right (cumsum acc p) u < length p \<and>
   0 < p ! searchsorted_right (cumsum acc p) u"
proof (induction p arbitrary: acc)
  case Nil
  then show ?case by simp
next
  case (Cons x xs)
  show ?case
  proof (cases "acc + x \<le> u")
    case True
    from Cons.prems have "u < (acc + x) + sum_list xs" by (simp add: add.assoc)
    from Cons.IH [OF True this] True show ?thesis
      by (simp add: searchsorted_right_def)
  next
    case False
    with Cons.prems show ?thesis by (simp add: searchsorted_right_def)
  qed
qed

lemma np_random_choice_positive:
  assumes "np_random_choice n p u = Inr i" and "0 \<le> u" and "u < 1"
  shows "i < length p \<and> 0 < p ! i \<and> \<not> list_ex (\<lambda>x. x < 0) p"
proof -
  from assms(1) have n: "n \<noteq> 0" and l: "length p = n"
    and nn: "\<not> list_ex (\<lambda>x. x < 0) p" and s: "sum_list p = 1"
    by (auto simp: np_random_choice_def split: if_splits)
  from n l have ne: "p \<noteq> []" by auto
  have last: "last (cumsum 0 p) = 1" using cumsum_last [OF ne, of 0] s by simp
  from assms(1) n l nn s last have i: "i = searchsorted_right (cumsum 0 p) u"
    by (simp add: np_random_choice_def Let_def)
  from searchsorted_cumsum [of 0 u p] assms(2,3) s
  show ?thesis by (simp add: i nn)
qed

lemma np_random_choice_returns:
  assumes "p \<noteq> []" and "\<not> list_ex (\<lambda>x. x < 0) p" and "sum_list p = 1"
  shows "\<exists>i. np_random_choice (length p) p u = Inr i"
  using assms by (simp add: np_random_choice_def Let_def)

lemma sum_list_divide: "sum_list (map (\<lambda>x. x / c) xs) = sum_list xs / (c::real)"
  by (induction xs) (simp_all add: add_divide_distrib)

lemma sum_list_positive:
  "\<forall>x\<in>set xs. 0 \<le> x \<Longrightarrow> \<exists>x\<in>set xs. 0 < x \<Longrightarrow> 0 < sum_list (xs::real list)"
proof (induction xs)
  case Nil
  then show ?case by simp
next
  case (Cons a xs)
  have "0 \<le> sum_list xs" using Cons.prems(1) by (simp add: sum_list_nonneg)
  show ?case
  proof (cases "0 < a")
    case True
    with \<open>0 \<le> sum_list xs\<close> show ?thesis by simp
  next
    case False
    with Cons.prems have "\<exists>x\<in>set xs. 0 < x" and "\<forall>x\<in>set xs. 0 \<le> x" and "0 \<le> a" by auto
    with Cons.IH show ?thesis by (simp add: add_nonneg_pos)
  qed
qed


lemma ADR_episode_sample_idx_eq:
  "ADR_episode_sample glob e w = (r, e', w') \<Longrightarrow> sample_idx e' = sample_idx e"
  by (auto simp: ADR_episode_sample_def split: prod.splits)

lemma boundary_sample_enabled:
  assumes "do_boundary_sample self" and "boundary_sample glob self w = (r, self', w')"
  shows "((\<exists>e. r = Inl e) \<and> self' = self) \<or>
         (\<exists>i. np_random_choice (length (adr_parameters self))
                (map (\<lambda>x. x / sum_list (map (\<lambda>a. boundary_sample_weight (heap w a))
                                             (adr_parameters self)))
                   (map (\<lambda>a. boundary_sample_weight (heap w a)) (adr_parameters self)))
                (draws w (pos w)) = Inr i \<and>
              sample_idx self' = Some (int i) \<and>
              (\<forall>lam idx. r = Inr (lam, idx) \<longrightarrow> idx = Some (int i)))"
  using assms
  by (auto simp: boundary_sample_def Let_def dest!: ADR_episode_sample_idx_eq
      split: if_splits sum.splits prod.splits)


lemma boundary_sample_chosen:
  assumes "do_boundary_sample self" and "boundary_sample glob self w = (r, self', w')"
    and "sum_list (map (\<lambda>a. boundary_sample_weight (heap w a)) (adr_parameters self)) \<noteq> 0"
    and "np_random_choice (length (adr_parameters self))
                (map (\<lambda>x. x / sum_list (map (\<lambda>a. boundary_sample_weight (heap w a))
                                             (adr_parameters self)))
                   (map (\<lambda>a. boundary_sample_weight (heap w a)) (adr_parameters self)))
                (draws w (pos w)) = Inr i"
  shows "sample_idx self' = Some (int i)"
  using assms
  by (auto simp: boundary_sample_def Let_def dest!: ADR_episode_sample_idx_eq
      split: if_splits sum.splits prod.splits)

lemma normalised_choice_weight:
  fixes ws :: "real list"
  assumes c: "np_random_choice n (map (\<lambda>x. x / t) ws) u = Inr i"
    and u: "0 \<le> u" "u < 1"
    and ex: "\<exists>x\<in>set ws. 0 < x"
  shows "i < length ws \<and> 0 < ws ! i"
proof -
  from np_random_choice_positive [OF c u]
  have il: "i < length (map (\<lambda>x. x / t) ws)" and pi: "0 < map (\<lambda>x. x / t) ws ! i"
    and nn: "\<not> list_ex (\<lambda>x. x < 0) (map (\<lambda>x. x / t) ws)"
    by blast+
  from il have i: "i < length ws" by simp
  from pi i have q: "0 < ws ! i / t" by simp
  from ex obtain x where x: "x \<in> set ws" "0 < x" by blast
  from nn x(1) have "\<not> x / t < 0" by (auto simp: list_ex_iff)
  with x(2) have "0 \<le> t" by (simp add: divide_less_0_iff not_less)
  with q have "0 < ws ! i" by (simp add: zero_less_divide_iff not_less)
  with i show ?thesis by simp
qed

text \<open>
  C9. With boundary sampling enabled, a unit variate in \<open>[0, 1)\<close> and at least one
  parameter of positive weight: an index that \<open>boundary_sample\<close> returns is a position of
  the flattened parameter list whose parameter has positive weight; and where no weight is
  negative an index is always selected and recorded in \<open>sample_idx\<close>, again at a parameter
  of positive weight. A parameter of weight 0 is never selected.
\<close>

theorem boundary_sample_positive_weight:
  assumes en: "do_boundary_sample self"
    and ex: "list_ex (\<lambda>a. 0 < boundary_sample_weight (heap w a)) (adr_parameters self)"
    and u0: "0 \<le> draws w (pos w)" and u1: "draws w (pos w) < 1"
    and res: "boundary_sample glob self w = (r, self', w')"
  shows "(\<forall>lam idx. r = Inr (lam, idx) \<longrightarrow>
            (\<exists>i. idx = Some (int i) \<and> i < length (adr_parameters self) \<and>
                 0 < boundary_sample_weight (heap w (adr_parameters self ! i)))) \<and>
         (list_all (\<lambda>a. 0 \<le> boundary_sample_weight (heap w a)) (adr_parameters self) \<longrightarrow>
            (\<exists>i. sample_idx self' = Some (int i) \<and> i < length (adr_parameters self) \<and>
                 0 < boundary_sample_weight (heap w (adr_parameters self ! i))))"
proof -
  let ?ps = "adr_parameters self"
  let ?ws = "map (\<lambda>a. boundary_sample_weight (heap w a)) ?ps"
  let ?t = "sum_list ?ws"
  let ?u = "draws w (pos w)"
  let ?c = "np_random_choice (length ?ps) (map (\<lambda>x. x / ?t) ?ws) ?u"
  from ex have exw: "\<exists>x\<in>set ?ws. 0 < x" by (auto simp: list_ex_iff)
  have sel: "i < length ?ps \<and> 0 < boundary_sample_weight (heap w (?ps ! i))"
    if "?c = Inr i" for i
    using normalised_choice_weight [OF that u0 u1 exw] by auto
  have first: "\<forall>lam idx. r = Inr (lam, idx) \<longrightarrow>
            (\<exists>i. idx = Some (int i) \<and> i < length ?ps \<and>
                 0 < boundary_sample_weight (heap w (?ps ! i)))"
  proof (intro allI impI)
    fix lam idx
    assume r: "r = Inr (lam, idx)"
    with boundary_sample_enabled [OF en res]
    obtain i where "?c = Inr i" and "idx = Some (int i)" by auto
    with sel [of i] show "\<exists>i. idx = Some (int i) \<and> i < length ?ps \<and>
                 0 < boundary_sample_weight (heap w (?ps ! i))"
      by blast
  qed
  have second: "\<exists>i. sample_idx self' = Some (int i) \<and> i < length ?ps \<and>
                 0 < boundary_sample_weight (heap w (?ps ! i))"
    if nn: "list_all (\<lambda>a. 0 \<le> boundary_sample_weight (heap w a)) ?ps"
  proof -
    from nn have nnw: "\<forall>x\<in>set ?ws. 0 \<le> x" by (auto simp: list_all_iff)
    from sum_list_positive [OF nnw exw] have t: "0 < ?t" .
    from exw have ne: "map (\<lambda>x. x / ?t) ?ws \<noteq> []" by auto
    from nnw t have nneg: "\<not> list_ex (\<lambda>x. x < 0) (map (\<lambda>x. x / ?t) ?ws)"
      by (auto simp: list_ex_iff divide_less_0_iff not_less)
    from t have one: "sum_list (map (\<lambda>x. x / ?t) ?ws) = 1"
      by (simp only: sum_list_divide) simp
    from np_random_choice_returns [OF ne nneg one, of ?u]
    obtain i where c: "?c = Inr i" by auto
    from t have "?t \<noteq> 0" by simp
    from boundary_sample_chosen [OF en res this c] sel [OF c]
    show ?thesis by blast
  qed
  from first second show ?thesis by blast
qed


theorem boundary_sample_positive_weight_witness:
  "fst (boundary_sample Map.empty
      \<lparr>distribution_dict = [''a'' \<mapsto> 0, ''b'' \<mapsto> 1], p_thresh = (0, 10),
        adr_parameters = [0, 1, 2, 3], sample_idx = None,
        distributions =
          [ADRUniform \<lparr>last_sample = None, parameters = Some [0, 1], name = ''a''\<rparr> 0 1,
           ADRUniform \<lparr>last_sample = None, parameters = Some [2, 3], name = ''b''\<rparr> 2 3],
        do_boundary_sample = True\<rparr>
      \<lparr>heap = (\<lambda>a. ADRParam_init (real a) (None, None) 0.02 3
                         (if a = 0 then 1 else if a = 2 then 3 else 0) []),
        draws = (\<lambda>k. 3 / 10), pos = 0\<rparr>) = Inr ([3 / 10, 23 / 10], Some 2) \<and>
   (\<exists>i. sample_idx (fst (snd (boundary_sample Map.empty
      \<lparr>distribution_dict = [''a'' \<mapsto> 0, ''b'' \<mapsto> 1], p_thresh = (0, 10),
        adr_parameters = [0, 1, 2, 3], sample_idx = None,
        distributions =
          [ADRUniform \<lparr>last_sample = None, parameters = Some [0, 1], name = ''a''\<rparr> 0 1,
           ADRUniform \<lparr>last_sample = None, parameters = Some [2, 3], name = ''b''\<rparr> 2 3],
        do_boundary_sample = True\<rparr>
      \<lparr>heap = (\<lambda>a. ADRParam_init (real a) (None, None) 0.02 3
                         (if a = 0 then 1 else if a = 2 then 3 else 0) []),
        draws = (\<lambda>k. 3 / 10), pos = 0\<rparr>))) = Some (int i) \<and> i < 4 \<and>
     0 < boundary_sample_weight (heap
      \<lparr>heap = (\<lambda>a. ADRParam_init (real a) (None, None) 0.02 3
                         (if a = 0 then 1 else if a = 2 then 3 else 0) []),
        draws = (\<lambda>k. 3 / 10), pos = 0\<rparr> ([0, 1, 2, 3] ! i)))"
proof -
  let ?E = "\<lparr>distribution_dict = [''a'' \<mapsto> 0, ''b'' \<mapsto> 1], p_thresh = (0, 10),
        adr_parameters = [0, 1, 2, 3], sample_idx = None,
        distributions =
          [ADRUniform \<lparr>last_sample = None, parameters = Some [0, 1], name = ''a''\<rparr> 0 1,
           ADRUniform \<lparr>last_sample = None, parameters = Some [2, 3], name = ''b''\<rparr> 2 3],
        do_boundary_sample = True\<rparr>"
  let ?W = "\<lparr>heap = (\<lambda>a. ADRParam_init (real a) (None, None) 0.02 3
                         (if a = 0 then 1 else if a = 2 then 3 else 0) []),
        draws = (\<lambda>k. 3 / 10), pos = 0\<rparr>"
  let ?B = "boundary_sample Map.empty ?E ?W"
  have en: "do_boundary_sample ?E" by simp
  have ex: "list_ex (\<lambda>a. 0 < boundary_sample_weight (heap ?W a)) (adr_parameters ?E)"
    by (simp add: ADRParam_init_def)
  have nn: "list_all (\<lambda>a. 0 \<le> boundary_sample_weight (heap ?W a)) (adr_parameters ?E)"
    by (simp add: ADRParam_init_def)
  have u0: "0 \<le> draws ?W (pos ?W)" and u1: "draws ?W (pos ?W) < 1" by simp_all
  have res: "?B = (fst ?B, fst (snd ?B), snd (snd ?B))" by (simp only: prod.collapse)
  have val: "fst ?B = Inr ([3 / 10, 23 / 10], Some 2)"
    by (simp add: boundary_sample_def np_random_choice_def searchsorted_right_def
        ADR_episode_sample_def np_random_uniform_def ADRParam_init_def Let_def)
  from boundary_sample_positive_weight [OF en ex u0 u1 res] nn
  obtain i where i: "sample_idx (fst (snd ?B)) = Some (int i)"
    and l: "i < length (adr_parameters ?E)"
    and w: "0 < boundary_sample_weight (heap ?W (adr_parameters ?E ! i))"
    by blast
  from l have l4: "i < 4" by simp
  from w have w4: "0 < boundary_sample_weight (heap ?W ([0, 1, 2, 3] ! i))" by simp
  from val i l4 w4 show ?thesis by blast
qed

lemma ADR_init_sample_idx:
  "fst (ADR_init dists thresh h0) = Inr e \<Longrightarrow> sample_idx e = None"
  by (auto simp: ADR_init_def split: prod.splits sum.splits)

text \<open>
  C10. An engine as its constructor returns it has \<open>sample_idx = None\<close>. Calling \<open>update\<close>
  with no index on it, also after an \<open>episode_sample\<close>, raises \<open>TypeError\<close> at the list
  lookup and leaves every parameter of the store as it was.
\<close>

theorem update_before_boundary_sample_fails:
  assumes "fst (ADR_init dists thresh h0) = Inr e"
  shows "sample_idx e = None \<and>
         ADR_update e performance None h = (Inl TypeError, h) \<and>
         ADR_update (fst (snd (ADR_episode_sample glob e w))) performance None h =
           (Inl TypeError, h)"
  using ADR_init_sample_idx [OF assms]
  by (simp add: ADR_update_def ADR_episode_sample_idx)

theorem update_before_boundary_sample_fails_witness:
  "fst (ADR_init
      [ADRUniform \<lparr>last_sample = None, parameters = Some [2, 5], name = ''joint''\<rparr> 2 5]
      (0, 10) (\<lambda>a. ADRParam_init (real a) (None, None) 0.02 3 1 [])) =
     Inr \<lparr>distribution_dict = [''joint'' \<mapsto> 0], p_thresh = (0, 10),
          adr_parameters = [2, 5], sample_idx = None,
          distributions =
            [ADRUniform \<lparr>last_sample = None, parameters = Some [2, 5], name = ''joint''\<rparr> 2 5],
          do_boundary_sample = True\<rparr> \<and>
   ADR_update
     \<lparr>distribution_dict = [''joint'' \<mapsto> 0], p_thresh = (0, 10),
      adr_parameters = [2, 5], sample_idx = None,
      distributions =
        [ADRUniform \<lparr>last_sample = None, parameters = Some [2, 5], name = ''joint''\<rparr> 2 5],
      do_boundary_sample = True\<rparr>
     20 None (\<lambda>a. ADRParam_init (real a) (None, None) 0.02 3 1 []) =
     (Inl TypeError, (\<lambda>a. ADRParam_init (real a) (None, None) 0.02 3 1 []))"
proof -
  let ?d = "ADRUniform \<lparr>last_sample = None, parameters = Some [2, 5], name = ''joint''\<rparr> 2 5"
  let ?h = "\<lambda>a. ADRParam_init (real a) (None, None) 0.02 3 1 []"
  let ?e = "\<lparr>distribution_dict = [''joint'' \<mapsto> 0], p_thresh = (0, 10),
      adr_parameters = [2, 5], sample_idx = None,
      distributions = [?d], do_boundary_sample = True\<rparr>"
  have i: "fst (ADR_init [?d] (0, 10) ?h) = Inr ?e"
    by (simp add: ADR_init_def construct_dict_def get_parameters_def)
  from update_before_boundary_sample_fails [OF i, of 20 ?h]
  have "ADR_update ?e 20 None ?h = (Inl TypeError, ?h)" by blast
  with i show ?thesis by blast
qed

end
